theory Spec2Isabelle
  imports Complex_Main
begin

section \<open>Season comparison engine of the NBA statistics client\<close>

text \<open>
  The development embeds \<^verbatim>\<open>BallDontLieClient\<close> of \<^verbatim>\<open>nba_api/client.py\<close>:
  \<^verbatim>\<open>_request\<close>, \<^verbatim>\<open>get_player\<close>, \<^verbatim>\<open>get_player_stats\<close>, \<^verbatim>\<open>get_player_seasons\<close> and
  \<^verbatim>\<open>compare_player_seasons\<close>.

  Conventions of the embedding.
  \<^item> A Python \<^verbatim>\<open>float\<close> is an exact rational (\<^typ>\<open>rat\<close>): IEEE rounding, infinities and
    NaN are outside the model.
  \<^item> A raised exception is the \<open>Inl\<close> branch of a sum; only the class of the exception is
    kept, not its message.
  \<^item> The values stored under the statistic keys of a game record are JSON scalars
    (null, boolean, number, string), as the upstream API delivers them; a string is a
    list of 8-bit characters.
\<close>

subsection \<open>Exceptions\<close>

text \<open>
  The classes of \<^verbatim>\<open>nba_api/exceptions.py\<close>, \<^verbatim>\<open>requests.RequestException\<close>, and the
  built-in exceptions the code catches or lets escape.
\<close>

datatype exc =
    NBAApiException
  | ApiKeyError
  | PlayerNotFoundError
  | SeasonNotFoundError
  | ApiRateLimitError
  | InvalidParameterError
  | CacheError
  | RequestException
  | JSONDecodeError
  | ValueError
  | TypeError
  | AttributeError

subsection \<open>Python values and the built-ins \<^verbatim>\<open>int\<close>, \<^verbatim>\<open>float\<close>, \<^verbatim>\<open>str\<close>, \<^verbatim>\<open>round\<close>\<close>

datatype pyval = PNone | PBool bool | PInt int | PFloat rat | PStr string

definition is_digit :: "char \<Rightarrow> bool" where
  "is_digit c = (48 \<le> (of_char c :: nat) \<and> (of_char c :: nat) \<le> 57)"

definition digit_val :: "char \<Rightarrow> nat" where
  "digit_val c = of_char c - 48"

definition is_space :: "char \<Rightarrow> bool" where
  "is_space c =
     (let n = (of_char c :: nat) in n = 32 \<or> (9 \<le> n \<and> n \<le> 13) \<or> (28 \<le> n \<and> n \<le> 31))"

definition strip :: "string \<Rightarrow> string" where
  "strip s = rev (dropWhile is_space (rev (dropWhile is_space s)))"

text \<open>A group of decimal digits in which single underscores may separate digits.\<close>

fun digitpart_ok :: "string \<Rightarrow> bool" where
  "digitpart_ok [] = False"
| "digitpart_ok [c] = is_digit c"
| "digitpart_ok (c # d # cs) =
     (is_digit c \<and> (if d = CHR ''_'' then digitpart_ok cs else digitpart_ok (d # cs)))"

definition digits_val :: "string \<Rightarrow> nat" where
  "digits_val s = foldl (\<lambda>a c. 10 * a + digit_val c) 0 (filter is_digit s)"

definition split_sign :: "string \<Rightarrow> bool \<times> string" where
  "split_sign s =
     (case s of
        [] \<Rightarrow> (False, [])
      | c # cs \<Rightarrow>
          if c = CHR ''-'' then (True, cs)
          else if c = CHR ''+'' then (False, cs)
          else (False, s))"

text \<open>
  \<^verbatim>\<open>int(s)\<close> on a string, base 10: surrounding whitespace, an optional sign, digits.
  Anything else raises \<^verbatim>\<open>ValueError\<close>.
\<close>

definition int_of_str :: "string \<Rightarrow> exc + int" where
  "int_of_str s =
     (let (neg, body) = split_sign (strip s)
      in if digitpart_ok body
         then Inr (if neg then - int (digits_val body) else int (digits_val body))
         else Inl ValueError)"

definition is_exp_mark :: "char \<Rightarrow> bool" where
  "is_exp_mark c = (c = CHR ''e'' \<or> c = CHR ''E'')"

text \<open>
  \<^verbatim>\<open>float(s)\<close> on a string: surrounding whitespace, an optional sign, an integer part
  and/or a fraction after a point, an optional exponent. The spellings of the
  non-finite floats (\<^verbatim>\<open>inf\<close>, \<^verbatim>\<open>infinity\<close>, \<^verbatim>\<open>nan\<close>) have no rational value and are not
  accepted here.
\<close>

definition float_of_str :: "string \<Rightarrow> exc + rat" where
  "float_of_str s =
     (let (neg, body) = split_sign (strip s);
          mant = takeWhile (\<lambda>c. \<not> is_exp_mark c) body;
          ex = dropWhile (\<lambda>c. \<not> is_exp_mark c) body;
          ip = takeWhile (\<lambda>c. c \<noteq> CHR ''.'') mant;
          fp = drop 1 (dropWhile (\<lambda>c. c \<noteq> CHR ''.'') mant);
          (eneg, ed) = split_sign (drop 1 ex);
          nfrac = length (filter is_digit fp);
          m = (of_nat (digits_val ip * 10 ^ nfrac + digits_val fp) :: rat) / 10 ^ nfrac;
          v = (if ex = [] then m
               else if eneg then m / 10 ^ digits_val ed
               else m * 10 ^ digits_val ed)
      in if (ip = [] \<or> digitpart_ok ip) \<and> (fp = [] \<or> digitpart_ok fp)
            \<and> \<not> (ip = [] \<and> fp = []) \<and> (ex = [] \<or> digitpart_ok ed)
         then Inr (if neg then - v else v)
         else Inl ValueError)"

text \<open>\<^verbatim>\<open>float(value)\<close> on a JSON scalar; \<^verbatim>\<open>float(None)\<close> raises \<^verbatim>\<open>TypeError\<close>.\<close>

fun py_float :: "pyval \<Rightarrow> exc + rat" where
  "py_float PNone = Inl TypeError"
| "py_float (PBool b) = Inr (if b then 1 else 0)"
| "py_float (PInt i) = Inr (of_int i)"
| "py_float (PFloat r) = Inr r"
| "py_float (PStr s) = float_of_str s"

text \<open>\<^verbatim>\<open>s.split(d)\<close> for a one-character separator.\<close>

fun split_on :: "char \<Rightarrow> string \<Rightarrow> string list" where
  "split_on d [] = [[]]"
| "split_on d (c # cs) =
     (if c = d then [] # split_on d cs
      else (case split_on d cs of
              [] \<Rightarrow> [[c]]
            | p # ps \<Rightarrow> (c # p) # ps))"

text \<open>\<^verbatim>\<open>str(n)\<close> for an integer.\<close>

definition digit_char :: "nat \<Rightarrow> char" where
  "digit_char n = char_of (48 + n)"

fun str_nat :: "nat \<Rightarrow> string" where
  "str_nat n = (if n < 10 then [digit_char n] else str_nat (n div 10) @ [digit_char (n mod 10)])"

definition str_int :: "int \<Rightarrow> string" where
  "str_int i = (if i < 0 then CHR ''-'' # str_nat (nat (- i)) else str_nat (nat i))"

text \<open>
  \<^verbatim>\<open>round(x, 1)\<close>: to one decimal place, a tie going to the even last digit.
\<close>

definition round_half_even :: "rat \<Rightarrow> int" where
  "round_half_even y =
     (let f = \<lfloor>y\<rfloor>; d = y - of_int f
      in if d < 1 / 2 then f
         else if 1 / 2 < d then f + 1
         else if even f then f else f + 1)"

definition py_round1 :: "rat \<Rightarrow> rat" where
  "py_round1 x = of_int (round_half_even (x * 10)) / 10"

subsection \<open>Season aggregation (the averaging loop of \<^verbatim>\<open>compare_player_seasons\<close>)\<close>

text \<open>A game record: the dictionary of one game's statistics.\<close>

type_synonym game = "string \<rightharpoonup> pyval"

text \<open>
  \<^verbatim>\<open>totals\<close> is a dictionary with a fixed set of keys; the keys in iteration order are
  \<open>totals_keys\<close>, the values are a function of the key.
\<close>

type_synonym totals = "string \<Rightarrow> rat"

definition totals_keys :: "string list" where
  "totals_keys = [''pts'', ''reb'', ''ast'', ''stl'', ''blk'', ''turnover'',
                  ''fg_pct'', ''fg3_pct'', ''ft_pct'', ''min'', ''games_played'']"

definition init_totals :: "nat \<Rightarrow> totals" where
  "init_totals total_games = (\<lambda>k. 0)(''games_played'' := of_nat total_games)"

text \<open>
  The decoding of the minutes string (the body of the first \<^verbatim>\<open>try\<close>):
  \<^verbatim>\<open>":" in min_str\<close> raises \<^verbatim>\<open>TypeError\<close> unless \<^verbatim>\<open>min_str\<close> is a string; unpacking the
  split into two names raises \<^verbatim>\<open>ValueError\<close> unless there are exactly two parts.
\<close>

definition min_value :: "pyval \<Rightarrow> exc + rat" where
  "min_value min_str =
     (case min_str of
        PStr s \<Rightarrow>
          if CHR '':'' \<in> set s then
            (case split_on CHR '':'' s of
               [minutes, seconds] \<Rightarrow>
                 (case int_of_str minutes of
                    Inl e \<Rightarrow> Inl e
                  | Inr m \<Rightarrow>
                      (case int_of_str seconds of
                         Inl e \<Rightarrow> Inl e
                       | Inr sec \<Rightarrow> Inr (of_int m + of_int sec / 60)))
             | _ \<Rightarrow> Inl ValueError)
          else float_of_str s
      | _ \<Rightarrow> Inl TypeError)"

text \<open>
  The inner loop \<^verbatim>\<open>for key in totals.keys()\<close> over one game. The result is the updated
  totals and the flag \<^verbatim>\<open>valid_game\<close>. Both \<^verbatim>\<open>except\<close> clauses catch \<^verbatim>\<open>ValueError\<close> and
  \<^verbatim>\<open>TypeError\<close>, the only exceptions the two \<^verbatim>\<open>try\<close> bodies raise; they clear the flag and
  leave the loop, keeping what was added to \<^verbatim>\<open>totals\<close> before.
\<close>

fun accumulate_keys :: "string list \<Rightarrow> game \<Rightarrow> totals \<Rightarrow> totals \<times> bool" where
  "accumulate_keys [] game totals = (totals, True)"
| "accumulate_keys (key # keys) game totals =
     (if key = ''games_played'' then accumulate_keys keys game totals
      else if key = ''min'' then
        (case min_value (case game key of None \<Rightarrow> PStr ''0:0'' | Some v \<Rightarrow> v) of
           Inl e \<Rightarrow> (totals, False)
         | Inr x \<Rightarrow> accumulate_keys keys game (totals(key := totals key + x)))
      else
        (let val = (case game key of None \<Rightarrow> PInt 0 | Some v \<Rightarrow> v)
         in if val \<noteq> PNone then
              (case py_float val of
                 Inl e \<Rightarrow> (totals, False)
               | Inr x \<Rightarrow> accumulate_keys keys game (totals(key := totals key + x)))
            else accumulate_keys keys game totals))"

text \<open>The outer loop \<^verbatim>\<open>for game in stats\<close>, with the counter \<^verbatim>\<open>valid_games\<close>.\<close>

fun accumulate_games :: "game list \<Rightarrow> totals \<Rightarrow> nat \<Rightarrow> totals \<times> nat" where
  "accumulate_games [] totals valid_games = (totals, valid_games)"
| "accumulate_games (game # stats) totals valid_games =
     (case accumulate_keys totals_keys game totals of
        (totals', valid_game) \<Rightarrow>
          accumulate_games stats totals' (if valid_game then valid_games + 1 else valid_games))"

text \<open>
  The averages of a season: a dictionary holding every key of \<^verbatim>\<open>totals\<close>, with
  \<^verbatim>\<open>games_played\<close> overwritten by the number of records.
\<close>

type_synonym averages = "string \<rightharpoonup> rat"

definition averages_of :: "totals \<Rightarrow> nat \<Rightarrow> nat \<Rightarrow> averages" where
  "averages_of totals valid_games total_games =
     (\<lambda>k. if k = ''games_played'' then Some (of_nat total_games)
          else if k \<in> set totals_keys then Some (totals k / of_nat valid_games)
          else None)"

text \<open>
  The body of \<^verbatim>\<open>for season in seasons\<close> after the fetch: \<open>None\<close> is the
  \<^verbatim>\<open>None\<close> stored in \<^verbatim>\<open>season_averages_raw\<close>.
\<close>

definition season_average :: "game list \<Rightarrow> averages option" where
  "season_average stats =
     (if stats = [] then None
      else
        (let total_games = length stats
         in if total_games = 0 then None
            else
              (case accumulate_games stats (init_totals total_games) 0 of
                 (totals, valid_games) \<Rightarrow>
                   if valid_games > 0
                   then Some (averages_of totals valid_games total_games)
                   else None)))"

subsection \<open>Growth between two seasons\<close>

definition key_metrics :: "string list" where
  "key_metrics = [''pts'', ''reb'', ''ast'', ''stl'', ''blk'', ''fg_pct'', ''fg3_pct'', ''ft_pct'']"

text \<open>
  One round of \<^verbatim>\<open>for metric in key_metrics\<close>: \<^verbatim>\<open>.get(metric, 0)\<close> reads an absent
  metric as 0; \<open>None\<close> is the \<^verbatim>\<open>None\<close> stored for the metric.
\<close>

definition metric_growth :: "averages \<Rightarrow> averages \<Rightarrow> string \<Rightarrow> rat option" where
  "metric_growth prev_stats curr_stats metric =
     (let prev_value = (case prev_stats metric of None \<Rightarrow> 0 | Some v \<Rightarrow> v);
          curr_value = (case curr_stats metric of None \<Rightarrow> 0 | Some v \<Rightarrow> v)
      in if prev_value \<noteq> 0
         then Some (py_round1 (((curr_value - prev_value) / \<bar>prev_value\<bar>) * 100))
         else None)"

type_synonym season_growth = "string \<rightharpoonup> rat option"

definition season_growth :: "averages \<Rightarrow> averages \<Rightarrow> season_growth" where
  "season_growth prev_stats curr_stats =
     foldl (\<lambda>sg metric. sg(metric \<mapsto> metric_growth prev_stats curr_stats metric))
       Map.empty key_metrics"

text \<open>The key \<^verbatim>\<open>f"{prev_season}-{curr_season}"\<close>.\<close>

definition growth_key :: "int \<Rightarrow> int \<Rightarrow> string" where
  "growth_key prev_season curr_season = str_int prev_season @ ''-'' @ str_int curr_season"

text \<open>
  \<^verbatim>\<open>season_averages_raw.get(season)\<close>: \<^verbatim>\<open>None\<close> for a season that is missing or that
  stores \<^verbatim>\<open>None\<close>. An averages dictionary is never empty, so \<^verbatim>\<open>not prev_stats\<close> holds
  exactly for \<^verbatim>\<open>None\<close>.
\<close>

type_synonym raw_averages = "int \<rightharpoonup> averages option"

definition raw_get :: "raw_averages \<Rightarrow> int \<Rightarrow> averages option" where
  "raw_get raw season = (case raw season of Some (Some a) \<Rightarrow> Some a | _ \<Rightarrow> None)"

type_synonym growth = "string \<rightharpoonup> season_growth"

text \<open>One round of \<^verbatim>\<open>for i in range(1, len(seasons))\<close>.\<close>

definition growth_step :: "int list \<Rightarrow> raw_averages \<Rightarrow> growth \<Rightarrow> nat \<Rightarrow> growth" where
  "growth_step seasons raw growth i =
     (let prev_season = seasons ! (i - 1);
          curr_season = seasons ! i
      in case (raw_get raw prev_season, raw_get raw curr_season) of
           (Some prev_stats, Some curr_stats) \<Rightarrow>
             growth(growth_key prev_season curr_season \<mapsto> season_growth prev_stats curr_stats)
         | _ \<Rightarrow> growth)"

definition growth_loop :: "int list \<Rightarrow> raw_averages \<Rightarrow> growth" where
  "growth_loop seasons raw = foldl (growth_step seasons raw) Map.empty [1..<length seasons]"

subsection \<open>The upstream API and \<^verbatim>\<open>_request\<close>\<close>

text \<open>
  What \<^verbatim>\<open>requests.get\<close> does for a request: it raises a \<^verbatim>\<open>RequestException\<close>
  (\<open>ConnectionFailed\<close>), or it returns a status code and a decoded body. A response
  served from the file cache is the 200 reply it was stored from.
\<close>

datatype 'a reply = ConnectionFailed | Reply nat 'a

text \<open>
  The \<^verbatim>\<open>data\<close> of a player reply: identifier, names, and the \<^verbatim>\<open>team\<close> entry, which is
  absent, null, or an object with an optional \<^verbatim>\<open>full_name\<close>.
\<close>

datatype team_field = TeamAbsent | TeamNull | Team "string option"

record player_data =
  pd_id :: "int option"
  pd_first_name :: "string option"
  pd_last_name :: "string option"
  pd_team :: team_field

text \<open>
  One entry of the \<^verbatim>\<open>data\<close> of a stats reply: the scalar statistics, and the \<^verbatim>\<open>game\<close>
  object (absent, or present with an optional integer \<^verbatim>\<open>season\<close>).
\<close>

record stat =
  stat_fields :: game
  stat_game :: "int option option"

text \<open>
  The two endpoints the client calls: \<^verbatim>\<open>players/{id}\<close>, whose \<^verbatim>\<open>data\<close> is \<open>None\<close> when
  it is missing or empty, and \<^verbatim>\<open>stats\<close> with the parameters \<^verbatim>\<open>player_ids[]\<close> and
  \<^verbatim>\<open>seasons[]\<close>.
\<close>

record upstream =
  players_ep :: "int \<Rightarrow> player_data option reply"
  stats_ep :: "int \<Rightarrow> int option \<Rightarrow> stat list reply"

text \<open>The requests made through \<^verbatim>\<open>_request\<close>, logged in the order they are made.\<close>

datatype call = PlayersCall int | StatsCall int "int option"

text \<open>
  The \<^verbatim>\<open>except\<close> clauses of \<^verbatim>\<open>_request\<close>: \<^verbatim>\<open>JSONDecodeError\<close> and
  \<^verbatim>\<open>RequestException\<close> are raised again; any other exception, the \<^verbatim>\<open>ApiKeyError\<close> and
  \<^verbatim>\<open>ApiRateLimitError\<close> raised in the \<^verbatim>\<open>try\<close> body included, leaves as a new
  \<^verbatim>\<open>NBAApiException\<close>.
\<close>

definition request_except :: "exc \<Rightarrow> exc" where
  "request_except e =
     (if e = JSONDecodeError \<or> e = RequestException then e else NBAApiException)"

definition request :: "'a reply \<Rightarrow> exc + 'a" where
  "request r =
     (case r of
        ConnectionFailed \<Rightarrow> Inl (request_except RequestException)
      | Reply status_code data \<Rightarrow>
          if status_code = 401 then Inl (request_except ApiKeyError)
          else if status_code = 429 then Inl (request_except ApiRateLimitError)
          else if status_code \<noteq> 200 then Inl (request_except RequestException)
          else Inr data)"

subsection \<open>\<^verbatim>\<open>get_player\<close>, \<^verbatim>\<open>get_player_stats\<close>, \<^verbatim>\<open>get_player_seasons\<close>\<close>

definition get_player_except :: "exc \<Rightarrow> exc" where
  "get_player_except e =
     (if e = PlayerNotFoundError \<or> e = ApiKeyError \<or> e = ApiRateLimitError
         \<or> e = RequestException
      then e else NBAApiException)"

definition get_player ::
  "upstream \<Rightarrow> int \<Rightarrow> call list \<Rightarrow> (exc + player_data) \<times> call list" where
  "get_player up player_id calls =
     (if player_id \<le> 0 then (Inl (get_player_except InvalidParameterError), calls)
      else
        (case request (players_ep up player_id) of
           Inl e \<Rightarrow> (Inl (get_player_except e), calls @ [PlayersCall player_id])
         | Inr None \<Rightarrow>
             (Inl (get_player_except PlayerNotFoundError), calls @ [PlayersCall player_id])
         | Inr (Some player_data) \<Rightarrow> (Inr player_data, calls @ [PlayersCall player_id])))"

definition get_player_stats_except :: "exc \<Rightarrow> exc" where
  "get_player_stats_except e =
     (if e = PlayerNotFoundError \<or> e = InvalidParameterError \<or> e = ApiKeyError
         \<or> e = ApiRateLimitError \<or> e = RequestException
      then e else NBAApiException)"

text \<open>\<open>current_year\<close> stands for \<^verbatim>\<open>datetime.now().year\<close>.\<close>

definition get_player_stats ::
  "upstream \<Rightarrow> int \<Rightarrow> int \<Rightarrow> int option \<Rightarrow> call list \<Rightarrow> (exc + stat list) \<times> call list"
  where
  "get_player_stats up current_year player_id season calls =
     (if player_id \<le> 0 then (Inl (get_player_stats_except InvalidParameterError), calls)
      else if (case season of
                 None \<Rightarrow> False
               | Some s \<Rightarrow> s < 1946 \<or> current_year < s)
      then (Inl (get_player_stats_except InvalidParameterError), calls)
      else
        (let seasons_param =
               (case season of
                  None \<Rightarrow> None
                | Some s \<Rightarrow> if s \<noteq> 0 then Some s else None)
         in case request (stats_ep up player_id seasons_param) of
              Inl e \<Rightarrow> (Inl (get_player_stats_except e), calls @ [StatsCall player_id seasons_param])
            | Inr stats \<Rightarrow> (Inr stats, calls @ [StatsCall player_id seasons_param])))"

text \<open>The loop of \<^verbatim>\<open>get_player_seasons\<close> that fills the set \<^verbatim>\<open>seasons\<close>.\<close>

fun collect_seasons :: "stat list \<Rightarrow> int set \<Rightarrow> int set" where
  "collect_seasons [] seasons = seasons"
| "collect_seasons (st # rest) seasons =
     (case stat_game st of
        Some (Some s) \<Rightarrow> collect_seasons rest (insert s seasons)
      | _ \<Rightarrow> collect_seasons rest seasons)"

text \<open>\<^verbatim>\<open>except Exception: raise\<close> hands every exception on as it is.\<close>

definition get_player_seasons ::
  "upstream \<Rightarrow> int \<Rightarrow> call list \<Rightarrow> (exc + int list) \<times> call list" where
  "get_player_seasons up player_id calls =
     (case request (stats_ep up player_id None) of
        Inl e \<Rightarrow> (Inl e, calls @ [StatsCall player_id None])
      | Inr data \<Rightarrow>
          (Inr (sorted_list_of_set (collect_seasons data {})), calls @ [StatsCall player_id None]))"

subsection \<open>\<^verbatim>\<open>compare_player_seasons\<close>\<close>

record player_summary =
  ps_id :: "int option"
  ps_name :: string
  ps_team :: "string option"

record comparison =
  cr_player :: player_summary
  cr_seasons :: "int list"
  cr_season_averages :: "string \<rightharpoonup> averages option"
  cr_growth :: growth
  cr_metrics :: "string list"

definition compare_except :: "exc \<Rightarrow> exc" where
  "compare_except e =
     (if e = PlayerNotFoundError \<or> e = InvalidParameterError \<or> e = ApiKeyError
         \<or> e = ApiRateLimitError \<or> e = RequestException
      then e else NBAApiException)"

text \<open>
  The loop \<^verbatim>\<open>for season in seasons\<close> that fills \<^verbatim>\<open>season_averages_raw\<close>; an exception of
  \<^verbatim>\<open>get_player_stats\<close> ends it.
\<close>

fun fetch_averages ::
  "upstream \<Rightarrow> int \<Rightarrow> int \<Rightarrow> int list \<Rightarrow> raw_averages \<Rightarrow> call list
     \<Rightarrow> (exc + raw_averages) \<times> call list" where
  "fetch_averages up current_year player_id [] raw calls = (Inr raw, calls)"
| "fetch_averages up current_year player_id (season # rest) raw calls =
     (case get_player_stats up current_year player_id (Some season) calls of
        (Inl e, calls') \<Rightarrow> (Inl e, calls')
      | (Inr stats, calls') \<Rightarrow>
          fetch_averages up current_year player_id rest
            (raw(season \<mapsto> season_average (map stat_fields stats))) calls')"

text \<open>\<^verbatim>\<open>{str(season): stats for season, stats in season_averages_raw.items()}\<close>\<close>

definition string_keys :: "int list \<Rightarrow> raw_averages \<Rightarrow> (string \<rightharpoonup> averages option)" where
  "string_keys seasons raw =
     (\<lambda>k. case find (\<lambda>season. str_int season = k) seasons of
            None \<Rightarrow> None
          | Some season \<Rightarrow> raw season)"

text \<open>\<^verbatim>\<open>str(x)\<close> inside the f-string of the player's name.\<close>

definition str_opt :: "string option \<Rightarrow> string" where
  "str_opt x = (case x of None \<Rightarrow> ''None'' | Some s \<Rightarrow> s)"

text \<open>
  The \<^verbatim>\<open>player\<close> entry of the result; \<^verbatim>\<open>player.get("team", {}).get("full_name")\<close> raises
  \<^verbatim>\<open>AttributeError\<close> when the team is null.
\<close>

definition summarize_player :: "player_data \<Rightarrow> exc + player_summary" where
  "summarize_player player =
     (case pd_team player of
        TeamNull \<Rightarrow> Inl AttributeError
      | TeamAbsent \<Rightarrow>
          Inr \<lparr>ps_id = pd_id player,
               ps_name = str_opt (pd_first_name player) @ '' '' @ str_opt (pd_last_name player),
               ps_team = None\<rparr>
      | Team full_name \<Rightarrow>
          Inr \<lparr>ps_id = pd_id player,
               ps_name = str_opt (pd_first_name player) @ '' '' @ str_opt (pd_last_name player),
               ps_team = full_name\<rparr>)"

text \<open>
  The method itself: validation, the player, the seasons, the growth, the result.
  The log of \<^verbatim>\<open>_request\<close> calls is passed through.
\<close>

definition compare_player_seasons ::
  "upstream \<Rightarrow> int \<Rightarrow> int \<Rightarrow> int list \<Rightarrow> call list \<Rightarrow> (exc + comparison) \<times> call list"
  where
  "compare_player_seasons up current_year player_id seasons calls =
     (if player_id \<le> 0 then (Inl (compare_except InvalidParameterError), calls)
      else if seasons = [] then (Inl (compare_except InvalidParameterError), calls)
      else if list_ex (\<lambda>season. season < 1946 \<or> current_year < season) seasons
      then (Inl (compare_except InvalidParameterError), calls)
      else
        (case get_player up player_id calls of
           (Inl e, calls1) \<Rightarrow> (Inl (compare_except e), calls1)
         | (Inr player, calls1) \<Rightarrow>
             (case fetch_averages up current_year player_id seasons Map.empty calls1 of
                (Inl e, calls2) \<Rightarrow> (Inl (compare_except e), calls2)
              | (Inr raw, calls2) \<Rightarrow>
                  (case summarize_player player of
                     Inl e \<Rightarrow> (Inl (compare_except e), calls2)
                   | Inr summary \<Rightarrow>
                       (Inr \<lparr>cr_player = summary,
                             cr_seasons = seasons,
                             cr_season_averages = string_keys seasons raw,
                             cr_growth = growth_loop seasons raw,
                             cr_metrics = key_metrics\<rparr>, calls2)))))"

subsection \<open>Notions used to state the properties\<close>

text \<open>The nine numeric statistics and, with the minutes, the ten fields that are parsed.\<close>

definition numeric_keys :: "string list" where
  "numeric_keys = [''pts'', ''reb'', ''ast'', ''stl'', ''blk'', ''turnover'',
                   ''fg_pct'', ''fg3_pct'', ''ft_pct'']"

definition field_keys :: "string list" where
  "field_keys = numeric_keys @ [''min'']"

text \<open>
  What parsing one field of a game yields: the number added to the total, or the
  exception. An absent numeric field is read as 0, a null one adds nothing; an absent
  minutes field is read as \<^verbatim>\<open>"0:0"\<close>.
\<close>

definition field_parse :: "string \<Rightarrow> game \<Rightarrow> exc + rat" where
  "field_parse key game =
     (if key = ''min'' then min_value (case game key of None \<Rightarrow> PStr ''0:0'' | Some v \<Rightarrow> v)
      else
        (case game key of
           None \<Rightarrow> Inr 0
         | Some PNone \<Rightarrow> Inr 0
         | Some v \<Rightarrow> py_float v))"

definition parses :: "string \<Rightarrow> game \<Rightarrow> bool" where
  "parses key game = (case field_parse key game of Inl e \<Rightarrow> False | Inr x \<Rightarrow> True)"

text \<open>A valid game: every one of the ten fields parses.\<close>

definition valid_game :: "game \<Rightarrow> bool" where
  "valid_game game = list_all (\<lambda>key. parses key game) field_keys"


text \<open>
  An upstream for the examples: every player exists; season 2021 has no records, every
  other season has one game with 10 points in 30 minutes.
\<close>

definition sample_upstream :: upstream where
  "sample_upstream =
     \<lparr>players_ep = (\<lambda>player_id.
        Reply 200 (Some \<lparr>pd_id = Some player_id, pd_first_name = Some ''Ada'',
                          pd_last_name = Some ''Byron'', pd_team = TeamAbsent\<rparr>)),
      stats_ep = (\<lambda>player_id season.
        if season = Some 2021 then Reply 200 []
        else Reply 200 [\<lparr>stat_fields = [''pts'' \<mapsto> PInt 10, ''min'' \<mapsto> PStr ''30:00''],
                        stat_game = Some (Some 2020)\<rparr>])\<rparr>"

section \<open>Properties\<close>

subsection \<open>The loops of the aggregation\<close>

text \<open>One round of the loop over the keys, in terms of the parse of the field.\<close>


lemma accumulate_keys_step:
  "accumulate_keys (key # keys) game totals =
     (if key = ''games_played'' then accumulate_keys keys game totals
      else (case field_parse key game of
              Inl e \<Rightarrow> (totals, False)
            | Inr x \<Rightarrow> accumulate_keys keys game (totals(key := totals key + x))))"
proof (cases "key = ''games_played''")
  case True
  then show ?thesis by simp
next
  case gp: False
  show ?thesis
  proof (cases "key = ''min''")
    case True
    then show ?thesis by (simp add: field_parse_def split: sum.split)
  next
    case nm: False
    show ?thesis
    proof (cases "game key")
      case None
      then show ?thesis using gp nm by (simp add: field_parse_def)
    next
      case (Some v)
      then show ?thesis using gp nm 
        by (cases v) (simp_all add: field_parse_def)
    qed
  qed
qed

lemma accumulate_keys_flag:
  "snd (accumulate_keys keys game totals) =
     list_all (\<lambda>k. k = ''games_played'' \<or> parses k game) keys"
proof (induction keys arbitrary: totals)
  case Nil
  show ?case by simp
next
  case (Cons key keys)
  show ?case
    unfolding accumulate_keys_step
    by (cases "field_parse key game") (simp_all add: Cons.IH parses_def)
qed

lemma accumulate_keys_valid_game:
  "snd (accumulate_keys totals_keys game totals) = valid_game game"
  unfolding accumulate_keys_flag
  by (simp add: valid_game_def totals_keys_def field_keys_def numeric_keys_def)

lemma accumulate_games_count:
  "snd (accumulate_games stats totals n) = n + length (filter valid_game stats)"
proof (induction stats arbitrary: totals n)
  case Nil
  show ?case by simp
next
  case (Cons game stats)
  obtain t v where tv: "accumulate_keys totals_keys game totals = (t, v)"
    by (cases "accumulate_keys totals_keys game totals")
  have "v = valid_game game"
    using accumulate_keys_valid_game [of game totals] tv by simp
  then show ?case
    using tv by (simp add: Cons.IH)
qed


subsection \<open>The season averages\<close>



text \<open>
  Claim C1 states that a record with a field that fails to parse adds nothing to any
  total, so that every average lies within the range of the valid records' values.
  The loop adds each field to \<^verbatim>\<open>totals\<close> as soon as it is parsed and leaves at the
  first failure, so the fields before the failing one stay added. Here the second
  record is invalid (minutes \<^verbatim>\<open>"abc"\<close>, the last field parsed); its 30 points are in the
  total all the same, and the average of the points is 40 although the only valid
  record has 10. The record is counted in \<^verbatim>\<open>games_played\<close>.
\<close>

theorem invalid_game_pollutes_totals:
  "\<not> valid_game [''pts'' \<mapsto> PInt 30, ''min'' \<mapsto> PStr ''abc''] \<and>
   valid_game [''pts'' \<mapsto> PInt 10, ''min'' \<mapsto> PStr ''10:00''] \<and>
   map_option (\<lambda>avg. (avg ''pts'', avg ''games_played''))
     (season_average
        [[''pts'' \<mapsto> PInt 10, ''min'' \<mapsto> PStr ''10:00''],
         [''pts'' \<mapsto> PInt 30, ''min'' \<mapsto> PStr ''abc'']])
     = Some (Some 40, Some 2)"
  by code_simp

subsection \<open>Parsing the fields of a game\<close>




lemma accumulate_keys_cong:
  "(\<And>k. k \<in> set keys \<Longrightarrow> k \<noteq> ''games_played'' \<Longrightarrow> field_parse k game = field_parse k game')
   \<Longrightarrow> accumulate_keys keys game totals = accumulate_keys keys game' totals"
proof (induction keys arbitrary: totals)
  case Nil
  show ?case by simp
next
  case (Cons key keys)
  have rest: "accumulate_keys keys game t = accumulate_keys keys game' t" for t
    using Cons.IH Cons.prems by simp
  show ?case
  proof (cases "key = ''games_played''")
    case True
    then show ?thesis unfolding accumulate_keys_step using rest by simp
  next
    case False
    then have "field_parse key game = field_parse key game'"
      using Cons.prems by simp
    then show ?thesis unfolding accumulate_keys_step using rest by (simp split: sum.split)
  qed
qed






text \<open>
  Claim C10. A record whose \<^verbatim>\<open>min\<close> is present but null fails to parse
  (\<^verbatim>\<open>":" in None\<close> raises \<^verbatim>\<open>TypeError\<close>), is invalid and is not counted in
  \<^verbatim>\<open>valid_games\<close>. A numeric field that is present but null parses to 0 and the loop
  does what it does on the record with 0 under the key. An absent \<^verbatim>\<open>min\<close> parses to 0
  minutes, as the record with \<^verbatim>\<open>"0:0"\<close> under the key does.
\<close>

theorem null_min_invalid_null_numeric_zero:
  "(game ''min'' = Some PNone \<longrightarrow>
      field_parse ''min'' game = Inl TypeError \<and> \<not> valid_game game \<and>
      snd (accumulate_games (game # stats) totals n) = snd (accumulate_games stats totals n)) \<and>
   (key \<in> set numeric_keys \<and> game key = Some PNone \<longrightarrow>
      field_parse key game = Inr 0 \<and>
      accumulate_keys totals_keys game totals
        = accumulate_keys totals_keys (game(key \<mapsto> PInt 0)) totals) \<and>
   (game ''min'' = None \<longrightarrow>
      field_parse ''min'' game = Inr 0 \<and>
      accumulate_keys totals_keys game totals
        = accumulate_keys totals_keys (game(''min'' \<mapsto> PStr ''0:0'')) totals)"
proof -
  have zero: "min_value (PStr ''0:0'') = Inr 0" by code_simp
  have a: "field_parse ''min'' game = Inl TypeError \<and> \<not> valid_game game \<and>
      snd (accumulate_games (game # stats) totals n) = snd (accumulate_games stats totals n)"
    if "game ''min'' = Some PNone"
  proof -
    have p: "field_parse ''min'' game = Inl TypeError"
      using that by (simp add: field_parse_def min_value_def)
    then have "\<not> parses ''min'' game" by (simp add: parses_def)
    then have v: "\<not> valid_game game" by (simp add: valid_game_def field_keys_def)
    then show ?thesis using p by (simp add: accumulate_games_count del: accumulate_games.simps)
  qed
  have b: "field_parse key game = Inr 0 \<and>
      accumulate_keys totals_keys game totals
        = accumulate_keys totals_keys (game(key \<mapsto> PInt 0)) totals"
    if "key \<in> set numeric_keys \<and> game key = Some PNone"
  proof -
    have nm: "key \<noteq> ''min''" using that by (auto simp add: numeric_keys_def)
    have same: "field_parse k game = field_parse k (game(key \<mapsto> PInt 0))" for k
      using that nm by (simp add: field_parse_def)
    have "accumulate_keys totals_keys game totals
        = accumulate_keys totals_keys (game(key \<mapsto> PInt 0)) totals"
      by (rule accumulate_keys_cong) (rule same)
    then show ?thesis using that nm by (simp add: field_parse_def)
  qed
  have c: "field_parse ''min'' game = Inr 0 \<and>
      accumulate_keys totals_keys game totals
        = accumulate_keys totals_keys (game(''min'' \<mapsto> PStr ''0:0'')) totals"
    if "game ''min'' = None"
  proof -
    have same: "field_parse k game = field_parse k (game(''min'' \<mapsto> PStr ''0:0''))" for k
      using that by (simp add: field_parse_def)
    have "accumulate_keys totals_keys game totals
        = accumulate_keys totals_keys (game(''min'' \<mapsto> PStr ''0:0'')) totals"
      by (rule accumulate_keys_cong) (rule same)
    then show ?thesis using that zero by (simp add: field_parse_def)
  qed
  show ?thesis using a b c by blast
qed

theorem null_min_invalid_null_numeric_zero_witness:
  "\<not> valid_game [''pts'' \<mapsto> PInt 10, ''min'' \<mapsto> PNone] \<and>
   snd (accumulate_games [[''pts'' \<mapsto> PInt 10, ''min'' \<mapsto> PNone]] (\<lambda>k. 0) 0) = 0 \<and>
   field_parse ''pts'' [''pts'' \<mapsto> PNone] = Inr 0 \<and>
   accumulate_keys totals_keys [''pts'' \<mapsto> PNone] (\<lambda>k. 0)
     = accumulate_keys totals_keys [''pts'' \<mapsto> PInt 0] (\<lambda>k. 0) \<and>
   field_parse ''min'' [''pts'' \<mapsto> PInt 10] = Inr 0"
proof -
  have k: "''pts'' \<in> set numeric_keys" by (simp add: numeric_keys_def)
  have 1: "\<not> valid_game [''pts'' \<mapsto> PInt 10, ''min'' \<mapsto> PNone] \<and>
      snd (accumulate_games [[''pts'' \<mapsto> PInt 10, ''min'' \<mapsto> PNone]] (\<lambda>k. 0) 0) = 0"
    using null_min_invalid_null_numeric_zero
      [of "[''pts'' \<mapsto> PInt 10, ''min'' \<mapsto> PNone]" "[]" "\<lambda>k. 0" 0]
    by simp
  have 2: "field_parse ''pts'' [''pts'' \<mapsto> PNone] = Inr 0 \<and>
      accumulate_keys totals_keys [''pts'' \<mapsto> PNone] (\<lambda>k. 0)
        = accumulate_keys totals_keys [''pts'' \<mapsto> PInt 0] (\<lambda>k. 0)"
    using null_min_invalid_null_numeric_zero
      [of "[''pts'' \<mapsto> PNone]" _ "\<lambda>k. 0" _ "''pts''"] k
    by simp
  have 3: "field_parse ''min'' [''pts'' \<mapsto> PInt 10] = Inr 0"
    using null_min_invalid_null_numeric_zero [of "[''pts'' \<mapsto> PInt 10]"]
    by simp
  show ?thesis using 1 2 3 by blast
qed

subsection \<open>Rendering of the seasons\<close>

declare str_nat.simps [simp del]

lemma of_char_digit_char: "n < 10 \<Longrightarrow> (of_char (digit_char n) :: nat) = 48 + n"
  by (simp add: digit_char_def)

lemma is_digit_digit_char: "n < 10 \<Longrightarrow> is_digit (digit_char n)"
  by (simp add: is_digit_def of_char_digit_char)

lemma digit_val_digit_char: "n < 10 \<Longrightarrow> digit_val (digit_char n) = n"
  by (simp add: digit_val_def of_char_digit_char)

lemma str_nat_digits: "c \<in> set (str_nat n) \<Longrightarrow> is_digit c"
proof (induction n arbitrary: c rule: str_nat.induct)
  case (1 n)
  show ?case
  proof (cases "n < 10")
    case True
    then show ?thesis using "1.prems" by (simp add: str_nat.simps [of n] is_digit_digit_char)
  next
    case False
    then show ?thesis
      using "1.prems" "1.IH" by (auto simp add: str_nat.simps [of n] is_digit_digit_char)
  qed
qed

lemma filter_digits_str_nat: "filter is_digit (str_nat n) = str_nat n"
  by (simp add: str_nat_digits)

lemma digits_val_str_nat: "digits_val (str_nat n) = n"
proof (induction n rule: str_nat.induct)
  case (1 n)
  show ?case
  proof (cases "n < 10")
    case True
    then show ?thesis
      by (simp add: str_nat.simps [of n] digits_val_def is_digit_digit_char digit_val_digit_char)
  next
    case False
    have "digits_val (str_nat (n div 10)) = n div 10" using False "1.IH" by simp
    then have "foldl (\<lambda>a c. 10 * a + digit_val c) 0 (str_nat (n div 10)) = n div 10"
      by (simp add: digits_val_def filter_digits_str_nat)
    then show ?thesis
      using False
      by (simp add: str_nat.simps [of n] digits_val_def filter_digits_str_nat
          is_digit_digit_char digit_val_digit_char)
  qed
qed

lemma str_nat_inj: "str_nat a = str_nat b \<Longrightarrow> a = b"
  by (metis digits_val_str_nat)

lemma minus_not_digit: "\<not> is_digit CHR ''-''"
  by (simp add: is_digit_def)

lemma str_int_nonneg: "0 \<le> i \<Longrightarrow> str_int i = str_nat (nat i)"
  by (simp add: str_int_def)

lemma str_int_inj: "0 \<le> i \<Longrightarrow> 0 \<le> j \<Longrightarrow> str_int i = str_int j \<Longrightarrow> i = j"
  using str_nat_inj [of "nat i" "nat j"] by (simp add: str_int_nonneg)

lemma append_sep_eq:
  assumes "xs @ d # ys = xs' @ d # ys'" "d \<notin> set xs" "d \<notin> set xs'"
  shows "xs = xs' \<and> ys = ys'"
proof -
  have "takeWhile (\<lambda>c. c \<noteq> d) (xs @ d # ys) = xs"
    using assms(2) by (auto simp add: takeWhile_tail)
  moreover have "takeWhile (\<lambda>c. c \<noteq> d) (xs' @ d # ys') = xs'"
    using assms(3) by (auto simp add: takeWhile_tail)
  ultimately have "xs = xs'" using assms(1) by simp
  then show ?thesis using assms(1) by simp
qed

lemma growth_key_inj:
  assumes "0 \<le> p" "0 \<le> c" "0 \<le> p'" "0 \<le> c'" "growth_key p c = growth_key p' c'"
  shows "p = p' \<and> c = c'"
proof -
  have m: "CHR ''-'' \<notin> set (str_nat n)" for n
    using str_nat_digits [of "CHR ''-''" n] minus_not_digit by blast
  have e: "growth_key p c = str_nat (nat p) @ CHR ''-'' # str_nat (nat c)"
    using assms(1,2) by (simp add: growth_key_def str_int_nonneg)
  have e': "growth_key p' c' = str_nat (nat p') @ CHR ''-'' # str_nat (nat c')"
    using assms(3,4) by (simp add: growth_key_def str_int_nonneg)
  have "str_nat (nat p) @ CHR ''-'' # str_nat (nat c)
          = str_nat (nat p') @ CHR ''-'' # str_nat (nat c')"
    using assms(5) unfolding e e' .
  then have "str_nat (nat p) = str_nat (nat p') \<and> str_nat (nat c) = str_nat (nat c')"
    by (rule append_sep_eq) (rule m)+
  then have "nat p = nat p'" "nat c = nat c'"
    by (auto dest: str_nat_inj)
  then show ?thesis using assms(1-4) by linarith
qed

subsection \<open>The growth loop\<close>

lemma growth_step_skip:
  "raw_get raw (seasons ! (i - 1)) = None \<or> raw_get raw (seasons ! i) = None
   \<Longrightarrow> growth_step seasons raw g i = g"
  by (auto simp add: growth_step_def Let_def split: option.splits)

lemma growth_step_store:
  "raw_get raw (seasons ! (i - 1)) = Some p \<Longrightarrow> raw_get raw (seasons ! i) = Some c
   \<Longrightarrow> growth_step seasons raw g i
       = g(growth_key (seasons ! (i - 1)) (seasons ! i) \<mapsto> season_growth p c)"
  by (simp add: growth_step_def Let_def)

lemma foldl_growth_dom:
  "dom (foldl (growth_step seasons raw) g ixs) =
     dom g \<union> {growth_key (seasons ! (i - 1)) (seasons ! i) | i.
                i \<in> set ixs \<and> raw_get raw (seasons ! (i - 1)) \<noteq> None
                \<and> raw_get raw (seasons ! i) \<noteq> None}"
proof (induction ixs arbitrary: g)
  case Nil
  show ?case by simp
next
  case (Cons j ixs)
  let ?K = "\<lambda>xs. {growth_key (seasons ! (i - 1)) (seasons ! i) | i.
                i \<in> set xs \<and> raw_get raw (seasons ! (i - 1)) \<noteq> None
                \<and> raw_get raw (seasons ! i) \<noteq> None}"
  have IH: "dom (foldl (growth_step seasons raw) g' ixs) = dom g' \<union> ?K ixs" for g'
    by (rule Cons.IH)
  show ?case
  proof (cases "raw_get raw (seasons ! (j - 1)) = None \<or> raw_get raw (seasons ! j) = None")
    case True
    then have "growth_step seasons raw g j = g" by (rule growth_step_skip)
    then have "dom (foldl (growth_step seasons raw) g (j # ixs)) = dom g \<union> ?K ixs"
      by (simp only: foldl_Cons IH)
    moreover have "?K (j # ixs) = ?K ixs" using True by auto
    ultimately show ?thesis by simp
  next
    case False
    then obtain p c where pc: "raw_get raw (seasons ! (j - 1)) = Some p"
        "raw_get raw (seasons ! j) = Some c" by auto
    have "dom (foldl (growth_step seasons raw) g (j # ixs))
            = insert (growth_key (seasons ! (j - 1)) (seasons ! j)) (dom g) \<union> ?K ixs"
      by (simp only: foldl_Cons IH growth_step_store [OF pc] dom_fun_upd option.simps if_False)
    moreover have "?K (j # ixs) = insert (growth_key (seasons ! (j - 1)) (seasons ! j)) (?K ixs)"
      using pc by auto
    ultimately show ?thesis by simp
  qed
qed

lemma foldl_growth_value:
  "foldl (growth_step seasons raw) g ixs k = Some v \<Longrightarrow>
   g k = Some v \<or>
   (\<exists>i\<in>set ixs. \<exists>p c. raw_get raw (seasons ! (i - 1)) = Some p
       \<and> raw_get raw (seasons ! i) = Some c
       \<and> k = growth_key (seasons ! (i - 1)) (seasons ! i) \<and> v = season_growth p c)"
proof (induction ixs arbitrary: g)
  case Nil
  then show ?case by simp
next
  case (Cons j ixs)
  show ?case
  proof (cases "raw_get raw (seasons ! (j - 1)) = None \<or> raw_get raw (seasons ! j) = None")
    case True
    then have "growth_step seasons raw g j = g" by (rule growth_step_skip)
    then show ?thesis using Cons.IH [of g] Cons.prems by auto
  next
    case False
    then obtain p c where pc: "raw_get raw (seasons ! (j - 1)) = Some p"
        "raw_get raw (seasons ! j) = Some c" by auto
    let ?g = "g(growth_key (seasons ! (j - 1)) (seasons ! j) \<mapsto> season_growth p c)"
    have "foldl (growth_step seasons raw) ?g ixs k = Some v"
      using Cons.prems by (simp add: growth_step_store [OF pc])
    from Cons.IH [OF this] show ?thesis
      using pc by (auto split: if_splits)
  qed
qed

lemma growth_loop_card: "card (dom (growth_loop seasons raw)) \<le> length seasons - 1"
proof -
  let ?key = "\<lambda>i. growth_key (seasons ! (i - 1)) (seasons ! i)"
  have "dom (growth_loop seasons raw) \<subseteq> ?key ` set [1..<length seasons]"
    unfolding growth_loop_def foldl_growth_dom by auto
  then have "card (dom (growth_loop seasons raw)) \<le> card (?key ` set [1..<length seasons])"
    by (intro card_mono) auto
  also have "\<dots> \<le> card (set [1..<length seasons])"
    by (intro card_image_le) auto
  also have "\<dots> = length seasons - 1" by simp
  finally show ?thesis .
qed

lemma growth_loop_dom:
  "k \<in> dom (growth_loop seasons raw) \<longleftrightarrow>
     (\<exists>i. 0 < i \<and> i < length seasons \<and> k = growth_key (seasons ! (i - 1)) (seasons ! i)
        \<and> raw_get raw (seasons ! (i - 1)) \<noteq> None \<and> raw_get raw (seasons ! i) \<noteq> None)"
proof -
  have "set [1..<length seasons] = {i. 0 < i \<and> i < length seasons}" by auto
  then show ?thesis unfolding growth_loop_def foldl_growth_dom by auto
qed

lemma growth_loop_entry:
  assumes nonneg: "\<forall>s\<in>set seasons. 0 \<le> s"
    and i: "0 < i" "i < length seasons"
  shows "raw_get raw (seasons ! (i - 1)) = None \<or> raw_get raw (seasons ! i) = None
           \<Longrightarrow> growth_loop seasons raw (growth_key (seasons ! (i - 1)) (seasons ! i)) = None"
    and "raw_get raw (seasons ! (i - 1)) = Some p \<Longrightarrow> raw_get raw (seasons ! i) = Some c
           \<Longrightarrow> growth_loop seasons raw (growth_key (seasons ! (i - 1)) (seasons ! i))
               = Some (season_growth p c)"
proof -
  have same: "seasons ! (j - 1) = seasons ! (i - 1) \<and> seasons ! j = seasons ! i"
    if "0 < j" "j < length seasons"
       "growth_key (seasons ! (j - 1)) (seasons ! j) = growth_key (seasons ! (i - 1)) (seasons ! i)"
    for j
  proof -
    have "0 \<le> seasons ! (j - 1)" "0 \<le> seasons ! j" "0 \<le> seasons ! (i - 1)" "0 \<le> seasons ! i"
      using nonneg i that(1,2) by (simp_all)
    then show ?thesis using growth_key_inj that(3) by blast
  qed
  {
    assume none: "raw_get raw (seasons ! (i - 1)) = None \<or> raw_get raw (seasons ! i) = None"
    have "growth_key (seasons ! (i - 1)) (seasons ! i) \<notin> dom (growth_loop seasons raw)"
    proof
      assume "growth_key (seasons ! (i - 1)) (seasons ! i) \<in> dom (growth_loop seasons raw)"
      then obtain j where j: "0 < j" "j < length seasons"
          "growth_key (seasons ! (i - 1)) (seasons ! i) = growth_key (seasons ! (j - 1)) (seasons ! j)"
          "raw_get raw (seasons ! (j - 1)) \<noteq> None" "raw_get raw (seasons ! j) \<noteq> None"
        unfolding growth_loop_dom by blast
      from same [OF j(1,2) j(3) [symmetric]] j(4,5) none show False by auto
    qed
    then show "growth_loop seasons raw (growth_key (seasons ! (i - 1)) (seasons ! i)) = None"
      by blast
  next
    assume pc: "raw_get raw (seasons ! (i - 1)) = Some p" "raw_get raw (seasons ! i) = Some c"
    have "growth_key (seasons ! (i - 1)) (seasons ! i) \<in> dom (growth_loop seasons raw)"
      unfolding growth_loop_dom using i pc by auto
    then obtain v where v: "growth_loop seasons raw (growth_key (seasons ! (i - 1)) (seasons ! i)) = Some v"
      by blast
    then obtain j p' c' where j: "j \<in> set [1..<length seasons]"
        "raw_get raw (seasons ! (j - 1)) = Some p'" "raw_get raw (seasons ! j) = Some c'"
        "growth_key (seasons ! (i - 1)) (seasons ! i) = growth_key (seasons ! (j - 1)) (seasons ! j)"
        "v = season_growth p' c'"
      unfolding growth_loop_def using foldl_growth_value [of seasons raw Map.empty] by fastforce
    have "0 < j" "j < length seasons" using j(1) by auto
    from same [OF this j(4) [symmetric]] have "p' = p" "c' = c" using j(2,3) pc by simp_all
    then show "growth_loop seasons raw (growth_key (seasons ! (i - 1)) (seasons ! i))
               = Some (season_growth p c)" using v j(5) by simp
  }
qed

subsection \<open>The orchestration\<close>

lemma fetch_averages_dom:
  "fetch_averages up current_year player_id seasons raw calls = (Inr raw', calls')
   \<Longrightarrow> dom raw' = dom raw \<union> set seasons"
proof (induction seasons arbitrary: raw calls)
  case Nil
  then show ?case by simp
next
  case (Cons season rest)
  obtain r calls1 where g: "get_player_stats up current_year player_id (Some season) calls = (r, calls1)"
    by (cases "get_player_stats up current_year player_id (Some season) calls")
  show ?case
  proof (cases r)
    case (Inl e)
    then show ?thesis using Cons.prems g by simp
  next
    case (Inr stats)
    then have "fetch_averages up current_year player_id rest
        (raw(season \<mapsto> season_average (map stat_fields stats))) calls1 = (Inr raw', calls')"
      using Cons.prems g by simp
    from Cons.IH [OF this] show ?thesis by auto
  qed
qed

lemma find_str_int:
  "s \<in> set seasons \<Longrightarrow> \<forall>x\<in>set seasons. 0 \<le> x
   \<Longrightarrow> find (\<lambda>season. str_int season = str_int s) seasons = Some s"
proof (induction seasons)
  case Nil
  then show ?case by simp
next
  case (Cons x xs)
  show ?case
  proof (cases "str_int x = str_int s")
    case True
    have "0 \<le> x" "0 \<le> s" using Cons.prems by auto
    then have "x = s" using True by (rule str_int_inj)
    then show ?thesis by simp
  next
    case False
    then have "s \<in> set xs" using Cons.prems(1) by auto
    then show ?thesis using False Cons.IH Cons.prems(2) by simp
  qed
qed

lemma string_keys_lookup:
  "s \<in> set seasons \<Longrightarrow> \<forall>x\<in>set seasons. 0 \<le> x
   \<Longrightarrow> string_keys seasons raw (str_int s) = raw s"
  by (simp add: string_keys_def find_str_int)

lemma compare_success:
  assumes "compare_player_seasons up current_year player_id seasons calls = (Inr res, calls')"
  shows "0 < player_id" "seasons \<noteq> []" "\<forall>s\<in>set seasons. 1946 \<le> s \<and> s \<le> current_year"
    and "\<exists>raw calls1. fetch_averages up current_year player_id seasons Map.empty calls1
                        = (Inr raw, calls')
           \<and> cr_season_averages res = string_keys seasons raw
           \<and> cr_growth res = growth_loop seasons raw
           \<and> cr_seasons res = seasons \<and> cr_metrics res = key_metrics"
proof -
  show 1: "0 < player_id" "seasons \<noteq> []"
    using assms by (auto simp add: compare_player_seasons_def split: if_splits)
  show 2: "\<forall>s\<in>set seasons. 1946 \<le> s \<and> s \<le> current_year"
    using assms by (auto simp add: compare_player_seasons_def list_ex_iff split: if_splits)
  have v: "\<not> player_id \<le> 0" "\<not> list_ex (\<lambda>season. season < 1946 \<or> current_year < season) seasons"
    using 1 2 by (auto simp add: list_ex_iff)
  show "\<exists>raw calls1. fetch_averages up current_year player_id seasons Map.empty calls1
                        = (Inr raw, calls')
           \<and> cr_season_averages res = string_keys seasons raw
           \<and> cr_growth res = growth_loop seasons raw
           \<and> cr_seasons res = seasons \<and> cr_metrics res = key_metrics"
    using assms 1(2) v
    by (auto simp add: compare_player_seasons_def split: prod.splits sum.splits)
qed

subsection \<open>Growth between two averages\<close>

lemma season_growth_metric:
  "metric \<in> set key_metrics \<Longrightarrow>
   season_growth prev_stats curr_stats metric = Some (metric_growth prev_stats curr_stats metric)"
  by (auto simp add: season_growth_def key_metrics_def)

lemma season_growth_dom: "dom (season_growth prev_stats curr_stats) = set key_metrics"
  by (auto simp add: season_growth_def key_metrics_def split: if_splits)



text \<open>
  Claim C4. In a comparison that is returned, the growth mapping has at most
  \<^verbatim>\<open>len(seasons) - 1\<close> entries, and every key is \<^verbatim>\<open>"{prev}-{curr}"\<close> for two seasons
  adjacent in the list as given. For two adjacent seasons: if the averages of either
  are null the key is not in the mapping; if both have averages the key is there, its
  entry is the growth between the two averages, and in it every metric whose previous
  value is zero or absent is null.
\<close>

theorem growth_mapping_shape:
  "compare_player_seasons up current_year player_id seasons calls = (Inr res, calls') \<Longrightarrow>
   card (dom (cr_growth res)) \<le> length seasons - 1 \<and>
   (\<forall>k \<in> dom (cr_growth res).
      \<exists>i. 0 < i \<and> i < length seasons \<and> k = growth_key (seasons ! (i - 1)) (seasons ! i)) \<and>
   (\<forall>i. 0 < i \<and> i < length seasons \<longrightarrow>
      (cr_season_averages res (str_int (seasons ! (i - 1))) = Some None
         \<or> cr_season_averages res (str_int (seasons ! i)) = Some None
       \<longrightarrow> cr_growth res (growth_key (seasons ! (i - 1)) (seasons ! i)) = None) \<and>
      (\<forall>prev_stats curr_stats.
         cr_season_averages res (str_int (seasons ! (i - 1))) = Some (Some prev_stats)
         \<and> cr_season_averages res (str_int (seasons ! i)) = Some (Some curr_stats)
       \<longrightarrow> cr_growth res (growth_key (seasons ! (i - 1)) (seasons ! i))
             = Some (season_growth prev_stats curr_stats)
           \<and> (\<forall>metric \<in> set key_metrics.
                 prev_stats metric = None \<or> prev_stats metric = Some 0
                 \<longrightarrow> season_growth prev_stats curr_stats metric = Some None)))"
proof -
  assume ok: "compare_player_seasons up current_year player_id seasons calls = (Inr res, calls')"
  from compare_success(3) [OF ok] have nonneg: "\<forall>s\<in>set seasons. 0 \<le> s" by auto
  from compare_success(4) [OF ok] obtain raw calls1 where
    sa: "cr_season_averages res = string_keys seasons raw" and
    gr: "cr_growth res = growth_loop seasons raw" by blast
  have card: "card (dom (cr_growth res)) \<le> length seasons - 1"
    unfolding gr by (rule growth_loop_card)
  have keys: "\<forall>k \<in> dom (cr_growth res).
      \<exists>i. 0 < i \<and> i < length seasons \<and> k = growth_key (seasons ! (i - 1)) (seasons ! i)"
    unfolding gr using growth_loop_dom [of _ seasons raw] by blast
  have look: "cr_season_averages res (str_int (seasons ! j)) = raw (seasons ! j)"
    if "j < length seasons" for j
    unfolding sa using that nonneg by (intro string_keys_lookup) auto
  have pair: "(cr_season_averages res (str_int (seasons ! (i - 1))) = Some None
         \<or> cr_season_averages res (str_int (seasons ! i)) = Some None
       \<longrightarrow> cr_growth res (growth_key (seasons ! (i - 1)) (seasons ! i)) = None) \<and>
      (\<forall>prev_stats curr_stats.
         cr_season_averages res (str_int (seasons ! (i - 1))) = Some (Some prev_stats)
         \<and> cr_season_averages res (str_int (seasons ! i)) = Some (Some curr_stats)
       \<longrightarrow> cr_growth res (growth_key (seasons ! (i - 1)) (seasons ! i))
             = Some (season_growth prev_stats curr_stats)
           \<and> (\<forall>metric \<in> set key_metrics.
                 prev_stats metric = None \<or> prev_stats metric = Some 0
                 \<longrightarrow> season_growth prev_stats curr_stats metric = Some None))"
    if i: "0 < i" "i < length seasons" for i
  proof -
    have lp: "cr_season_averages res (str_int (seasons ! (i - 1))) = raw (seasons ! (i - 1))"
      using look [of "i - 1"] i by simp
    have lc: "cr_season_averages res (str_int (seasons ! i)) = raw (seasons ! i)"
      using look [of i] i by simp
    have none: "cr_growth res (growth_key (seasons ! (i - 1)) (seasons ! i)) = None"
      if "raw (seasons ! (i - 1)) = Some None \<or> raw (seasons ! i) = Some None"
    proof -
      have "raw_get raw (seasons ! (i - 1)) = None \<or> raw_get raw (seasons ! i) = None"
        using that by (auto simp add: raw_get_def)
      then show ?thesis unfolding gr by (rule growth_loop_entry(1) [OF nonneg i])
    qed
    have some: "cr_growth res (growth_key (seasons ! (i - 1)) (seasons ! i))
             = Some (season_growth p c)"
      if "raw (seasons ! (i - 1)) = Some (Some p)" "raw (seasons ! i) = Some (Some c)" for p c
    proof -
      have "raw_get raw (seasons ! (i - 1)) = Some p" "raw_get raw (seasons ! i) = Some c"
        using that by (simp_all add: raw_get_def)
      then show ?thesis unfolding gr by (rule growth_loop_entry(2) [OF nonneg i])
    qed
    have zero: "season_growth p c metric = Some None"
      if "metric \<in> set key_metrics" "p metric = None \<or> p metric = Some 0" for p c metric
      using that by (auto simp add: season_growth_metric metric_growth_def)
    show ?thesis unfolding lp lc using none some zero by blast
  qed
  show ?thesis using card keys pair by blast
qed

text \<open>
  Seasons 2020, 2022, 2021 in this order, 2021 without records: the key
  \<^verbatim>\<open>2020-2022\<close> is present, with null growth of the rebounds (previous value 0), and
  the key \<^verbatim>\<open>2022-2021\<close> is absent.
\<close>

theorem growth_mapping_shape_witness:
  "\<exists>res calls'.
     compare_player_seasons sample_upstream 2025 1 [2020, 2022, 2021] [] = (Inr res, calls') \<and>
     card (dom (cr_growth res)) \<le> 2 \<and>
     cr_growth res ''2022-2021'' = None \<and>
     (\<exists>g. cr_growth res ''2020-2022'' = Some g \<and> g ''reb'' = Some None)"
proof -
  let ?seasons = "[2020, 2022, 2021] :: int list"
  let ?run = "compare_player_seasons sample_upstream 2025 1 ?seasons []"
  have ev: "case fst ?run of Inl e \<Rightarrow> False
        | Inr r \<Rightarrow>
            (case cr_season_averages r ''2021'' of Some None \<Rightarrow> True | _ \<Rightarrow> False) \<and>
            (case cr_season_averages r ''2020'' of
               Some (Some p) \<Rightarrow> p ''reb'' = Some 0
             | _ \<Rightarrow> False) \<and>
            (case cr_season_averages r ''2022'' of Some (Some c) \<Rightarrow> True | _ \<Rightarrow> False)"
    by code_simp
  then obtain res calls' where ok: "?run = (Inr res, calls')"
    by (cases ?run; cases "fst ?run") auto
  have a21: "cr_season_averages res ''2021'' = Some None"
    using ev ok by (auto split: option.splits)
  obtain p where a20: "cr_season_averages res ''2020'' = Some (Some p)" "p ''reb'' = Some 0"
    using ev ok by (auto split: option.splits)
  obtain c where a22: "cr_season_averages res ''2022'' = Some (Some c)"
    using ev ok by (auto split: option.splits)
  have s: "str_int 2020 = ''2020''" "str_int 2021 = ''2021''" "str_int 2022 = ''2022''"
    by code_simp+
  have k: "growth_key 2020 2022 = ''2020-2022''" "growth_key 2022 2021 = ''2022-2021''"
    by code_simp+
  have reb: "''reb'' \<in> set key_metrics" by (simp add: key_metrics_def)
  note shape = growth_mapping_shape [OF ok]
  note pair = shape [THEN conjunct2, THEN conjunct2, THEN spec]
  have n: "?seasons ! 0 = 2020" "?seasons ! 1 = 2022" "?seasons ! 2 = 2021" by simp_all
  have 1: "card (dom (cr_growth res)) \<le> 2" using shape by simp
  have 2: "cr_growth res ''2022-2021'' = None"
    using pair [of 2] a21 by (simp add: n s k)
  have "cr_growth res ''2020-2022'' = Some (season_growth p c)
      \<and> season_growth p c ''reb'' = Some None"
    using pair [of 1] a20 a22 reb by (simp add: n s k)
  then show ?thesis using ok 1 2 by blast
qed

subsection \<open>Validation and failures\<close>

text \<open>
  Claim C5. A player identifier that is not positive, an empty list of seasons, or a
  season outside 1946 .. \<open>current_year\<close> makes \<^verbatim>\<open>compare_player_seasons\<close> raise
  \<^verbatim>\<open>InvalidParameterError\<close>, and the log of requests is as it was: nothing was fetched.
\<close>

theorem compare_rejects_invalid_input:
  "player_id \<le> 0 \<or> seasons = [] \<or> (\<exists>s \<in> set seasons. s < 1946 \<or> current_year < s) \<Longrightarrow>
   compare_player_seasons up current_year player_id seasons calls
     = (Inl InvalidParameterError, calls)"
  by (auto simp add: compare_player_seasons_def compare_except_def list_ex_iff)

theorem compare_rejects_invalid_input_witness:
  "compare_player_seasons sample_upstream 2025 0 [2020] [] = (Inl InvalidParameterError, []) \<and>
   compare_player_seasons sample_upstream 2025 1 [] [] = (Inl InvalidParameterError, []) \<and>
   compare_player_seasons sample_upstream 2025 1 [1900] [] = (Inl InvalidParameterError, []) \<and>
   compare_player_seasons sample_upstream 2025 1 [2020, 2026] [] = (Inl InvalidParameterError, [])"
proof -
  have 1: "compare_player_seasons sample_upstream 2025 0 [2020] [] = (Inl InvalidParameterError, [])"
    using compare_rejects_invalid_input [of 0 "[2020]" 2025 sample_upstream "[]"] by simp
  have 2: "compare_player_seasons sample_upstream 2025 1 [] [] = (Inl InvalidParameterError, [])"
    using compare_rejects_invalid_input [of 1 "[]" 2025 sample_upstream "[]"] by simp
  have 3: "compare_player_seasons sample_upstream 2025 1 [1900] [] = (Inl InvalidParameterError, [])"
    using compare_rejects_invalid_input [of 1 "[1900]" 2025 sample_upstream "[]"] by simp
  have 4: "compare_player_seasons sample_upstream 2025 1 [2020, 2026] []
             = (Inl InvalidParameterError, [])"
    using compare_rejects_invalid_input [of 1 "[2020, 2026]" 2025 sample_upstream "[]"] by simp
  show ?thesis using 1 2 3 4 by blast
qed

text \<open>
  Claim C7 states that a failure of the data source (authentication, rate limit,
  network) leaves \<^verbatim>\<open>compare_player_seasons\<close> unchanged. \<^verbatim>\<open>_request\<close> raises
  \<^verbatim>\<open>ApiKeyError\<close> on status 401 and \<^verbatim>\<open>ApiRateLimitError\<close> on status 429 inside its own
  \<^verbatim>\<open>try\<close>, whose \<^verbatim>\<open>except Exception\<close> clause turns both into \<^verbatim>\<open>NBAApiException\<close>. So
  a 401 on the player request and a 429 on a season's stats both leave
  \<^verbatim>\<open>compare_player_seasons\<close> as \<^verbatim>\<open>NBAApiException\<close>; only a \<^verbatim>\<open>RequestException\<close> comes
  out as it was raised. No comparison is returned in any of these cases.
\<close>

theorem auth_and_rate_limit_failures_are_rewrapped:
  "request (Reply 401 x) = Inl NBAApiException \<and>
   request (Reply 429 x) = Inl NBAApiException \<and>
   fst (compare_player_seasons
          (sample_upstream\<lparr>players_ep := (\<lambda>player_id. Reply 401 None)\<rparr>) 2025 1 [2020] [])
     = Inl NBAApiException \<and>
   fst (compare_player_seasons
          (sample_upstream\<lparr>stats_ep := (\<lambda>player_id season. Reply 429 [])\<rparr>) 2025 1 [2020] [])
     = Inl NBAApiException \<and>
   fst (compare_player_seasons
          (sample_upstream\<lparr>stats_ep := (\<lambda>player_id season. ConnectionFailed)\<rparr>) 2025 1 [2020] [])
     = Inl RequestException"
  by (simp add: request_def request_except_def compare_player_seasons_def get_player_def
      get_player_except_def get_player_stats_def get_player_stats_except_def compare_except_def
      sample_upstream_def)

subsection \<open>The seasons of a player\<close>

lemma collect_seasons_set:
  "collect_seasons data seasons
     = seasons \<union> {s. \<exists>st \<in> set data. stat_game st = Some (Some s)}"
proof (induction data arbitrary: seasons)
  case Nil
  show ?case by simp
next
  case (Cons st rest)
  show ?case
  proof (cases "stat_game st")
    case None
    then show ?thesis by (simp add: Cons.IH)
  next
    case (Some g)
    then show ?thesis by (cases g) (auto simp add: Cons.IH)
  qed
qed

lemma collect_seasons_finite: "finite seasons \<Longrightarrow> finite (collect_seasons data seasons)"
  by (induction data arbitrary: seasons) (auto split: option.splits)

text \<open>
  Claim C9. When the stats request succeeds, \<^verbatim>\<open>get_player_seasons\<close> returns a strictly
  ascending list (sorted, every season once) whose elements are exactly the seasons
  found in the \<^verbatim>\<open>game\<close> objects of the player's records; it returns a list only in that
  case.
\<close>

theorem get_player_seasons_sorted_distinct:
  "(stats_ep up player_id None = Reply 200 data \<longrightarrow>
      (\<exists>ss. fst (get_player_seasons up player_id calls) = Inr ss \<and>
            sorted ss \<and> distinct ss \<and>
            set ss = {s. \<exists>st \<in> set data. stat_game st = Some (Some s)})) \<and>
   (fst (get_player_seasons up player_id calls) = Inr seasons_list \<longrightarrow>
      sorted_wrt (<) seasons_list \<and>
      (\<exists>data. stats_ep up player_id None = Reply 200 data \<and>
              set seasons_list = {s. \<exists>st \<in> set data. stat_game st = Some (Some s)}))"
proof -
  have fin: "finite (collect_seasons data {})" for data
    by (rule collect_seasons_finite) simp
  have ok: "\<exists>ss. fst (get_player_seasons up player_id calls) = Inr ss \<and>
            sorted ss \<and> distinct ss \<and>
            set ss = {s. \<exists>st \<in> set data. stat_game st = Some (Some s)}"
    if "stats_ep up player_id None = Reply 200 data"
    using that fin [of data]
    by (simp add: get_player_seasons_def request_def collect_seasons_set)
  have only_then: "sorted_wrt (<) seasons_list \<and>
      (\<exists>data. stats_ep up player_id None = Reply 200 data \<and>
              set seasons_list = {s. \<exists>st \<in> set data. stat_game st = Some (Some s)})"
    if r: "fst (get_player_seasons up player_id calls) = Inr seasons_list"
  proof -
    obtain data where d: "request (stats_ep up player_id None) = Inr data"
      using r by (cases "request (stats_ep up player_id None)")
        (simp_all add: get_player_seasons_def)
    then have rep: "stats_ep up player_id None = Reply 200 data"
      by (auto simp add: request_def split: reply.splits if_splits)
    have l: "seasons_list = sorted_list_of_set (collect_seasons data {})"
      using r d by (simp add: get_player_seasons_def)
    have "sorted_wrt (<) seasons_list"
      unfolding l by (simp add: strict_sorted_iff)
    moreover have "set seasons_list = {s. \<exists>st \<in> set data. stat_game st = Some (Some s)}"
      unfolding l using fin [of data] by (simp add: collect_seasons_set)
    ultimately show ?thesis using rep by blast
  qed
  show ?thesis using ok only_then by blast
qed

theorem get_player_seasons_sorted_distinct_witness:
  "fst (get_player_seasons
          \<lparr>players_ep = (\<lambda>player_id. Reply 404 None),
           stats_ep = (\<lambda>player_id season.
             Reply 200 [\<lparr>stat_fields = Map.empty, stat_game = Some (Some 2022)\<rparr>,
                        \<lparr>stat_fields = Map.empty, stat_game = Some (Some 2020)\<rparr>,
                        \<lparr>stat_fields = Map.empty, stat_game = None\<rparr>,
                        \<lparr>stat_fields = Map.empty, stat_game = Some None\<rparr>,
                        \<lparr>stat_fields = Map.empty, stat_game = Some (Some 2022)\<rparr>])\<rparr>
          7 []) = Inr [2020, 2022] \<and>
   sorted_wrt (<) [2020, 2022 :: int]"
proof -
  let ?up = "\<lparr>players_ep = (\<lambda>player_id. Reply 404 None),
           stats_ep = (\<lambda>player_id season.
             Reply 200 [\<lparr>stat_fields = Map.empty, stat_game = Some (Some 2022)\<rparr>,
                        \<lparr>stat_fields = Map.empty, stat_game = Some (Some 2020)\<rparr>,
                        \<lparr>stat_fields = Map.empty, stat_game = None\<rparr>,
                        \<lparr>stat_fields = Map.empty, stat_game = Some None\<rparr>,
                        \<lparr>stat_fields = Map.empty, stat_game = Some (Some 2022)\<rparr>])\<rparr>"
  have e: "fst (get_player_seasons ?up 7 []) = Inr [2020, 2022]"
    by code_simp
  show ?thesis
    using get_player_seasons_sorted_distinct [of ?up 7 _ "[]" "[2020, 2022]"] e by simp
qed

end
